theory Spec2Isabelle
  imports Main "HOL-Library.Word" "HOL-Library.Sublist"
begin

unbundle bit_operations_syntax

section \<open>can-joystick: CAN frames to uinput events (main.cc)\<close>

text \<open>
  A shallow embedding of the decode and dispatch functions of \<^verbatim>\<open>main.cc\<close>:
  the four frame handlers, \<^verbatim>\<open>HandleCanMessage\<close>, \<^verbatim>\<open>CanPacketCallback\<close> and
  the axis ranges that \<^verbatim>\<open>InitUinputDevice\<close> stores in the device descriptor.
  Machine integers are words of the width the source declares; \<^verbatim>\<open>write\<close> on
  the uinput descriptor, \<^verbatim>\<open>fprintf(stderr, ...)\<close> and \<^verbatim>\<open>exit\<close> are explicit
  in a world record and an outcome type.
\<close>

subsection \<open>Integer types and constants\<close>

type_synonym u8 = "8 word"
type_synonym u16 = "16 word"
type_synonym s16 = "16 word"
type_synonym s32 = "32 word"

text \<open>The IDs of the various inputs (lines 34-37).\<close>

definition kThrottleId :: u16 where "kThrottleId = 0x01a1"
definition kSteeringId :: u16 where "kSteeringId = 0x01e5"
definition kBrakeId :: u16 where "kBrakeId = 0x00f1"
definition kPaddleShifterId :: u16 where "kPaddleShifterId = 0x01f3"

text \<open>Limits for the brake, throttle and steering axes (lines 40-42).\<close>

definition kBrakeLimit :: u8 where "kBrakeLimit = 0x4b"
definition kThrottleLimit :: u8 where "kThrottleLimit = 0xfe"
definition kSteeringLimit :: s16 where "kSteeringLimit = 0x1d00"

subsection \<open>Frames and events\<close>

text \<open>
  Modelled from the spec: the declaration of \<^verbatim>\<open>struct usbcan_msg\<close> is in
  \<^verbatim>\<open>usbcan.h\<close> of the libusbcan submodule, which is not part of the sources.
  The spec's RawFrame gives the field types: a 16-bit unsigned identifier, a
  length and a fixed buffer of 8 bytes. The field names are the ones
  \<^verbatim>\<open>main.cc\<close> reads: \<^verbatim>\<open>msg->frame.can_id\<close>, \<^verbatim>\<open>msg->frame.can_dlc\<close>,
  \<^verbatim>\<open>msg->frame.data[i]\<close>. The buffer is a list; a frame of the transport layer
  has \<open>length (data f) = 8\<close>, so the constant offsets 1, 2 and 6 that the
  handlers read are inside it.
\<close>

record can_frame =
  can_id :: u16
  can_dlc :: u8
  data :: "u8 list"

record usbcan_msg =
  frame :: can_frame

text \<open>
  \<^verbatim>\<open>struct input_event\<close> of the kernel: type, code and a signed 32-bit value
  (the timestamp is zeroed by \<^verbatim>\<open>= {}\<close> and never set). The macros of
  \<^verbatim>\<open>linux/input.h\<close> that the source uses keep their names.
\<close>

datatype ev_type = EV_SYN | EV_KEY | EV_ABS

datatype ev_code =
  SYN_REPORT | ABS_WHEEL | ABS_GAS | ABS_BRAKE | BTN_GEAR_UP | BTN_GEAR_DOWN

record input_event =
  ev_type :: ev_type
  ev_code :: ev_code
  ev_value :: s32

subsection \<open>The world: the uinput descriptor, stderr, and the outcome of a call\<close>

text \<open>
  \<open>uinput\<close> is the sequence of \<^verbatim>\<open>write\<close> calls made on \<^verbatim>\<open>uinput_fd\<close>, each
  with the record submitted and whether the call was accepted (returned a
  non-negative count). \<open>stderr\<close> holds the format strings printed, without the
  trailing newline; errno is not modelled. \<open>write_fails k\<close> is the
  environment: whether the \<open>k\<close>-th \<^verbatim>\<open>write\<close> call on the descriptor,
  counted from 0, returns a negative value.
\<close>

record world =
  uinput :: "(input_event \<times> bool) list"
  stderr :: "string list"
  write_fails :: "nat \<Rightarrow> bool"

text \<open>\<^verbatim>\<open>exit(code)\<close> ends the run in the world reached so far.\<close>

datatype 'a outcome = Exit int world | Return 'a world

definition write_event :: "input_event \<Rightarrow> world \<Rightarrow> bool \<times> world" where
  "write_event e w =
     (let failed = write_fails w (length (uinput w))
      in (failed, w\<lparr>uinput := uinput w @ [(e, \<not> failed)]\<rparr>))"

definition fprintf_stderr :: "string \<Rightarrow> world \<Rightarrow> world" where
  "fprintf_stderr s w = w\<lparr>stderr := stderr w @ [s]\<rparr>"

subsection \<open>The handlers (lines 47-141)\<close>

definition HandleThrottlePos :: "usbcan_msg \<Rightarrow> world \<Rightarrow> unit outcome" where
  "HandleThrottlePos msg w =
     (if can_dlc (frame msg) = 7 then
        (let v = data (frame msg) ! 6;
             throttle_event = \<lparr>ev_type = EV_ABS, ev_code = ABS_GAS, ev_value = ucast v\<rparr>;
             (failed, w') = write_event throttle_event w
         in if failed
            then Exit (- 1) (fprintf_stderr ''Failed to write throttle event: %d (%s)'' w')
            else Return () w')
      else Return () (fprintf_stderr ''Malformed accelerator position'' w))"

definition HandleBrakePos :: "usbcan_msg \<Rightarrow> world \<Rightarrow> unit outcome" where
  "HandleBrakePos msg w =
     (if can_dlc (frame msg) = 6 then
        (let v = data (frame msg) ! 1;
             brake_event = \<lparr>ev_type = EV_ABS, ev_code = ABS_BRAKE, ev_value = ucast v\<rparr>;
             (failed, w') = write_event brake_event w
         in if failed
            then Exit (- 1) (fprintf_stderr ''Failed to write brake event: %d (%s)'' w')
            else Return () w')
      else Return () (fprintf_stderr ''Malformed brake position'' w))"

text \<open>
  Line 93: the cast to \<^verbatim>\<open>uint16_t\<close> is promoted to \<^verbatim>\<open>int\<close> before the shift, the
  result of the \<^verbatim>\<open>|\<close> is converted to \<^verbatim>\<open>int16_t\<close> (the low 16 bits). Line 98:
  \<^verbatim>\<open>-value\<close> promotes the \<^verbatim>\<open>int16_t\<close> to \<^verbatim>\<open>int\<close> (sign extension) and negates
  there.
\<close>

definition HandleSteeringPos :: "usbcan_msg \<Rightarrow> world \<Rightarrow> unit outcome" where
  "HandleSteeringPos msg w =
     (if can_dlc (frame msg) = 8 then
        (let hi = (ucast (data (frame msg) ! 1) :: u16);
             v = (ucast (push_bit 8 (ucast hi :: s32)
                         OR (ucast (data (frame msg) ! 2) :: s32)) :: s16);
             wheel_event = \<lparr>ev_type = EV_ABS, ev_code = ABS_WHEEL,
                            ev_value = - (scast v :: s32)\<rparr>;
             (failed, w') = write_event wheel_event w
         in if failed
            then Exit (- 1) (fprintf_stderr ''Failed to write wheel event: %d (%s)'' w')
            else Return () w')
      else Return () (fprintf_stderr ''Malformed steering position'' w))"

text \<open>
  Lines 115-116: a \<^verbatim>\<open>bool\<close> initialised from the masked byte is true iff the
  masked byte is not zero; stored in the value field it is 1 or 0. The
  malformed branch prints the steering text (line 138).
\<close>

definition HandlePaddleShifter :: "usbcan_msg \<Rightarrow> world \<Rightarrow> unit outcome" where
  "HandlePaddleShifter msg w =
     (if can_dlc (frame msg) = 3 then
        (let up_pressed = (data (frame msg) ! 1 AND 0x01 \<noteq> 0);
             down_pressed = (data (frame msg) ! 1 AND 0x02 \<noteq> 0);
             gear_event = \<lparr>ev_type = EV_KEY, ev_code = BTN_GEAR_UP,
                           ev_value = (if up_pressed then 1 else 0)\<rparr>;
             (failed, w') = write_event gear_event w
         in if failed
            then Exit (- 1) (fprintf_stderr ''Failed to write gear up event: %d (%s)'' w')
            else
              (let gear_event2 = gear_event\<lparr>ev_code := BTN_GEAR_DOWN,
                                   ev_value := (if down_pressed then 1 else 0)\<rparr>;
                   (failed2, w'') = write_event gear_event2 w'
               in if failed2
                  then Exit (- 1)
                         (fprintf_stderr ''Failed to write gear down event: %d (%s)'' w'')
                  else Return () w''))
      else Return () (fprintf_stderr ''Malformed steering position'' w))"

subsection \<open>Dispatch and the batch callback (lines 148-196)\<close>

definition HandleCanMessage :: "usbcan_msg \<Rightarrow> world \<Rightarrow> bool outcome" where
  "HandleCanMessage msg w =
     (let after = (\<lambda>r. case r of Exit c w' \<Rightarrow> Exit c w' | Return u w' \<Rightarrow> Return True w')
      in if can_id (frame msg) = kThrottleId then after (HandleThrottlePos msg w)
         else if can_id (frame msg) = kBrakeId then after (HandleBrakePos msg w)
         else if can_id (frame msg) = kSteeringId then after (HandleSteeringPos msg w)
         else if can_id (frame msg) = kPaddleShifterId then after (HandlePaddleShifter msg w)
         else Return False w)"

text \<open>
  The loop of lines 180-182 over \<^verbatim>\<open>msgs[0 .. num_msgs - 1]\<close>; \<^verbatim>\<open>|=\<close> on a
  \<^verbatim>\<open>bool\<close> evaluates the call for every frame.
\<close>

fun handle_loop :: "usbcan_msg list \<Rightarrow> bool \<Rightarrow> world \<Rightarrow> bool outcome" where
  "handle_loop [] handled w = Return handled w"
| "handle_loop (m # ms) handled w =
     (case HandleCanMessage m w of
        Exit c w' \<Rightarrow> Exit c w'
      | Return h w' \<Rightarrow> handle_loop ms (handled \<or> h) w')"

definition sync_event :: input_event where
  "sync_event = \<lparr>ev_type = EV_SYN, ev_code = SYN_REPORT, ev_value = 0\<rparr>"

text \<open>
  \<^verbatim>\<open>device_id\<close> and \<^verbatim>\<open>bus_id\<close> are not read; \<^verbatim>\<open>arg\<close> points to the descriptor
  that the world stands for.
\<close>

definition CanPacketCallback :: "usbcan_msg list \<Rightarrow> world \<Rightarrow> unit outcome" where
  "CanPacketCallback msgs w =
     (case handle_loop msgs False w of
        Exit c w' \<Rightarrow> Exit c w'
      | Return handled w' \<Rightarrow>
          if handled then
            (let (failed, w'') = write_event sync_event w'
             in if failed
                then Return () (fprintf_stderr ''Failed to write sync event: %d (%s)'' w'')
                else Return () w'')
          else Return () w')"

subsection \<open>The axis ranges of the device descriptor (lines 242-263)\<close>

text \<open>
  The arrays of \<^verbatim>\<open>struct uinput_user_dev\<close> are indexed by axis code and
  zero-initialised by \<^verbatim>\<open>= {}\<close>. \<^verbatim>\<open>-kSteeringLimit\<close> is computed in
  \<^verbatim>\<open>int\<close>.
\<close>

record uinput_user_dev =
  name :: string
  vendor :: u16
  product :: u16
  version :: u16
  absmax :: "ev_code \<Rightarrow> s32"
  absmin :: "ev_code \<Rightarrow> s32"
  absfuzz :: "ev_code \<Rightarrow> s32"
  absflat :: "ev_code \<Rightarrow> s32"

definition uidev :: uinput_user_dev where
  "uidev =
     \<lparr>name = ''Cadillac ELR'', vendor = 1, product = 1, version = 1,
      absmax = (\<lambda>_. 0)(ABS_WHEEL := scast kSteeringLimit,
                        ABS_GAS := ucast kThrottleLimit,
                        ABS_BRAKE := ucast kBrakeLimit),
      absmin = (\<lambda>_. 0)(ABS_WHEEL := - scast kSteeringLimit, ABS_GAS := 0, ABS_BRAKE := 0),
      absfuzz = (\<lambda>_. 0)(ABS_WHEEL := 0, ABS_GAS := 0, ABS_BRAKE := 0),
      absflat = (\<lambda>_. 0)(ABS_WHEEL := 0, ABS_GAS := 0, ABS_BRAKE := 0)\<rparr>"

subsection \<open>Observing a run\<close>

text \<open>
  What a call added to the world it started in: the \<^verbatim>\<open>write\<close> calls it made
  (with their results), the records it submitted, and the lines it printed.
\<close>

definition final :: "'a outcome \<Rightarrow> world" where
  "final r = (case r of Exit c w \<Rightarrow> w | Return v w \<Rightarrow> w)"

definition new_writes :: "world \<Rightarrow> 'a outcome \<Rightarrow> (input_event \<times> bool) list" where
  "new_writes w r = drop (length (uinput w)) (uinput (final r))"

definition submitted :: "world \<Rightarrow> 'a outcome \<Rightarrow> input_event list" where
  "submitted w r = map fst (new_writes w r)"

definition new_diags :: "world \<Rightarrow> 'a outcome \<Rightarrow> string list" where
  "new_diags w r = drop (length (stderr w)) (stderr (final r))"

text \<open>A fresh device whose every \<^verbatim>\<open>write\<close> is accepted, and the runs on it.\<close>

definition accepting :: world where
  "accepting = \<lparr>uinput = [], stderr = [], write_fails = (\<lambda>_. False)\<rparr>"

definition frame_events :: "usbcan_msg \<Rightarrow> input_event list" where
  "frame_events m = submitted accepting (HandleCanMessage m accepting)"

definition frame_diags :: "usbcan_msg \<Rightarrow> string list" where
  "frame_diags m = new_diags accepting (HandleCanMessage m accepting)"

definition data_events :: "usbcan_msg list \<Rightarrow> input_event list" where
  "data_events ms = concat (map frame_events ms)"

definition data_diags :: "usbcan_msg list \<Rightarrow> string list" where
  "data_diags ms = concat (map frame_diags ms)"

definition batch_events :: "usbcan_msg list \<Rightarrow> input_event list" where
  "batch_events ms = submitted accepting (CanPacketCallback ms accepting)"

definition accepted :: "input_event list \<Rightarrow> (input_event \<times> bool) list" where
  "accepted es = map (\<lambda>e. (e, True)) es"

definition extend :: "world \<Rightarrow> (input_event \<times> bool) list \<Rightarrow> string list \<Rightarrow> world" where
  "extend w us ds = w\<lparr>uinput := uinput w @ us, stderr := stderr w @ ds\<rparr>"

subsection \<open>The vocabulary of the specification\<close>

text \<open>
  The decode table of the specification: the recognized identifiers and the
  length each one requires.
\<close>

definition recognized :: "usbcan_msg \<Rightarrow> bool" where
  "recognized m \<longleftrightarrow> can_id (frame m) \<in> {0x01a1, 0x00f1, 0x01e5, 0x01f3}"

definition declared_length :: "u16 \<Rightarrow> u8 option" where
  "declared_length i =
     (if i = 0x01a1 then Some 7 else if i = 0x00f1 then Some 6
      else if i = 0x01e5 then Some 8 else if i = 0x01f3 then Some 3 else None)"

definition malformed :: "usbcan_msg \<Rightarrow> bool" where
  "malformed m \<longleftrightarrow>
     recognized m \<and> declared_length (can_id (frame m)) \<noteq> Some (can_dlc (frame m))"

definition malformed_diag :: "string \<Rightarrow> bool" where
  "malformed_diag s \<longleftrightarrow>
     s \<in> {''Malformed accelerator position'', ''Malformed brake position'',
          ''Malformed steering position''}"

text \<open>
  The big-endian signed 16-bit integer made of a high and a low byte, in
  arithmetic: the unsigned value \<open>256 * hi + lo\<close>, read in two's complement.
\<close>

definition be_s16 :: "u8 \<Rightarrow> u8 \<Rightarrow> int" where
  "be_s16 hi lo =
     (let u = 256 * uint hi + uint lo in if u < 32768 then u else u - 65536)"

text \<open>The raw steering value of a frame: that integer at offsets 1-2.\<close>

definition raw_steering :: "usbcan_msg \<Rightarrow> int" where
  "raw_steering m = be_s16 (data (frame m) ! 1) (data (frame m) ! 2)"

text \<open>An event's value lies in the range the descriptor declares for its code.\<close>

definition in_declared_range :: "input_event \<Rightarrow> bool" where
  "in_declared_range e \<longleftrightarrow>
     sint (absmin uidev (ev_code e)) \<le> sint (ev_value e)
     \<and> sint (ev_value e) \<le> sint (absmax uidev (ev_code e))"

subsection \<open>Example frames and devices\<close>

text \<open>
  The four well-formed frames of the end-to-end scenarios; frames whose
  payload is beyond the declared limit of the axis; a paddle frame with no bit
  set and a steering frame with a negative raw value; devices that refuse
  exactly one \<^verbatim>\<open>write\<close> call or that already have a history.
\<close>

definition ex_throttle :: usbcan_msg where
  "ex_throttle = \<lparr>frame = \<lparr>can_id = 0x01a1, can_dlc = 7, data = [0, 0, 0, 0, 0, 0, 0x80, 0]\<rparr>\<rparr>"

definition ex_brake :: usbcan_msg where
  "ex_brake = \<lparr>frame = \<lparr>can_id = 0x00f1, can_dlc = 6, data = [0, 0x20, 0, 0, 0, 0, 0, 0]\<rparr>\<rparr>"

definition ex_steering :: usbcan_msg where
  "ex_steering = \<lparr>frame = \<lparr>can_id = 0x01e5, can_dlc = 8, data = [0, 0x01, 0, 0, 0, 0, 0, 0]\<rparr>\<rparr>"

definition ex_paddle :: usbcan_msg where
  "ex_paddle = \<lparr>frame = \<lparr>can_id = 0x01f3, can_dlc = 3, data = [0, 0x03, 0, 0, 0, 0, 0, 0]\<rparr>\<rparr>"

definition ex_throttle_full :: usbcan_msg where
  "ex_throttle_full =
     \<lparr>frame = \<lparr>can_id = 0x01a1, can_dlc = 7, data = [0, 0, 0, 0, 0, 0, 0xff, 0]\<rparr>\<rparr>"

definition ex_brake_over :: usbcan_msg where
  "ex_brake_over = \<lparr>frame = \<lparr>can_id = 0x00f1, can_dlc = 6, data = [0, 0x4c, 0, 0, 0, 0, 0, 0]\<rparr>\<rparr>"

definition ex_steering_over :: usbcan_msg where
  "ex_steering_over =
     \<lparr>frame = \<lparr>can_id = 0x01e5, can_dlc = 8, data = [0, 0x1d, 0x01, 0, 0, 0, 0, 0]\<rparr>\<rparr>"

definition ex_paddle_idle :: usbcan_msg where
  "ex_paddle_idle = \<lparr>frame = \<lparr>can_id = 0x01f3, can_dlc = 3, data = [0, 0, 0, 0, 0, 0, 0, 0]\<rparr>\<rparr>"

definition ex_steering_neg :: usbcan_msg where
  "ex_steering_neg =
     \<lparr>frame = \<lparr>can_id = 0x01e5, can_dlc = 8, data = [0, 0xff, 0, 0, 0, 0, 0, 0]\<rparr>\<rparr>"

definition refusing :: "nat \<Rightarrow> world" where
  "refusing n = \<lparr>uinput = [], stderr = [], write_fails = (\<lambda>k. k = n)\<rparr>"

definition used_device :: world where
  "used_device =
     \<lparr>uinput = [(\<lparr>ev_type = EV_ABS, ev_code = ABS_BRAKE, ev_value = 32\<rparr>, True),
                (sync_event, False)],
      stderr = [''Failed to write sync event: %d (%s)''],
      write_fails = (\<lambda>k. k = 1)\<rparr>"

section \<open>Properties\<close>

subsection \<open>Words\<close>

lemma uint_u8_bound: "uint (b :: u8) < 256"
  using uint_lt2p [of b] by simp

lemma sint_ucast_u8: "sint (ucast (b :: u8) :: s32) = uint b"
proof -
  have "0 \<le> uint b" by simp
  then have "- 2147483648 \<le> uint b" by linarith
  moreover have "uint b < 2147483648" using uint_u8_bound [of b] by linarith
  ultimately show ?thesis
    by (simp add: signed_ucast_eq signed_take_bit_int_eq_self_iff)
qed

lemma steering_word_cat:
  "(ucast (push_bit 8 (ucast (ucast (d1 :: u8) :: u16) :: s32) OR (ucast (d2 :: u8) :: s32)) :: s16)
     = word_cat d1 d2"
  by (rule bit_word_eqI) (auto simp: bit_simps dest: bit_imp_le_length)

lemma uint_word_cat_u8: "uint (word_cat (d1 :: u8) (d2 :: u8) :: u16) = 256 * uint d1 + uint d2"
proof -
  have a: "uint d1 < 256" "uint d2 < 256" by (rule uint_u8_bound)+
  have c: "0 \<le> uint d1" "0 \<le> uint d2" by simp_all
  have "uint (word_cat d1 d2 :: u16) = (uint d1 * 256 + uint d2) mod 65536"
    by (simp add: word_cat_eq uint_word_ariths uint_up_ucast is_up push_bit_eq_mult mod_simps)
  also have "\<dots> = 256 * uint d1 + uint d2" using a c by simp
  finally show ?thesis .
qed

lemma sint_word_cat_u8: "sint (word_cat (d1 :: u8) (d2 :: u8) :: u16) = be_s16 d1 d2"
proof -
  have a: "uint d1 < 256" "uint d2 < 256" by (rule uint_u8_bound)+
  have "sint (word_cat d1 d2 :: u16) = signed_take_bit 15 (256 * uint d1 + uint d2)"
    by (simp add: sint_uint uint_word_cat_u8)
  also have "\<dots> = be_s16 d1 d2"
  proof (cases "256 * uint d1 + uint d2 < 32768")
    case True
    have "0 \<le> 256 * uint d1 + uint d2" by simp
    then have "- 32768 \<le> 256 * uint d1 + uint d2" by linarith
    with True show ?thesis
      by (simp add: be_s16_def Let_def signed_take_bit_int_eq_self_iff)
  next
    case False
    define u where "u = 256 * uint d1 + uint d2"
    have u: "32768 \<le> u" "u < 65536" using False a by (simp_all add: u_def)
    have e: "u + 32768 = (u - 32768) + 65536 * 1" by simp
    have "(u + 32768) mod 65536 = (u - 32768) mod 65536"
      unfolding e by (rule mod_mult_self2)
    also have "\<dots> = u - 32768" using u by simp
    finally have "signed_take_bit 15 u = u - 65536"
      by (simp add: signed_take_bit_eq_take_bit_shift take_bit_eq_mod)
    with False show ?thesis by (simp add: be_s16_def Let_def u_def)
  qed
  finally show ?thesis .
qed

lemma sint_neg_scast: "sint (- (scast (v :: s16) :: s32)) = - sint v"
proof -
  have "- (2 ^ 15) \<le> sint v" "sint v < 2 ^ 15"
    using sint_ge [of v] sint_lt [of v] by simp_all
  then show ?thesis
    by (simp add: sint_word_minus sint_up_scast is_up signed_take_bit_int_eq_self_iff)
qed

lemma mask_bit0: "((b :: u8) AND 0x01 \<noteq> 0) = bit b 0"
  by (simp add: and_one_eq mod_2_eq_odd bit_0)

lemma mask_bit1: "((b :: u8) AND 0x02 \<noteq> 0) = bit b 1"
  using and_exp_eq_0_iff_not_bit [of b 1] by simp

subsection \<open>One frame\<close>

lemmas handler_defs =
  HandleCanMessage_def HandleThrottlePos_def HandleBrakePos_def HandleSteeringPos_def
  HandlePaddleShifter_def write_event_def fprintf_stderr_def
  kThrottleId_def kBrakeId_def kSteeringId_def kPaddleShifterId_def

lemmas obs_defs = final_def new_writes_def submitted_def new_diags_def accepting_def

lemmas ex_defs =
  ex_throttle_def ex_brake_def ex_steering_def ex_paddle_def ex_throttle_full_def
  refusing_def used_device_def accepting_def

lemmas ex2_defs = ex_brake_over_def ex_steering_over_def ex_paddle_idle_def ex_steering_neg_def

lemma extend_extend: "extend (extend w a b) c d = extend w (a @ c) (b @ d)"
  by (simp add: extend_def)

lemma extend_fields [simp]:
  "uinput (extend w a b) = uinput w @ a"
  "stderr (extend w a b) = stderr w @ b"
  "write_fails (extend w a b) = write_fails w"
  by (simp_all add: extend_def)

lemma extend_Nil [simp]: "extend w [] [] = w"
  by (simp add: extend_def)

lemma accepted_append: "accepted (a @ b) = accepted a @ accepted b"
  by (simp add: accepted_def)

text \<open>
  A handler that returns has made only accepted writes: the ones of the same
  frame on the accepting device.
\<close>

lemma HandleCanMessage_Return:
  assumes "HandleCanMessage m w = Return h w'"
  shows "w' = extend w (accepted (frame_events m)) (frame_diags m) \<and> h = recognized m"
  using assms
  by (auto simp: handler_defs obs_defs frame_events_def frame_diags_def recognized_def
      accepted_def extend_def Let_def split: if_splits)

text \<open>A handler that exits has just seen a write refused, and exits with -1.\<close>

lemma HandleCanMessage_Exit:
  assumes "HandleCanMessage m w = Exit c w'"
  shows "c = - 1 \<and> (\<exists>pre e line. uinput w' = uinput w @ accepted pre @ [(e, False)]
           \<and> prefix (pre @ [e]) (frame_events m) \<and> stderr w' = stderr w @ [line]
           \<and> write_fails w' = write_fails w)"
proof -
  consider (t) "can_id (frame m) = 0x01a1" | (b) "can_id (frame m) = 0x00f1"
    | (s) "can_id (frame m) = 0x01e5" | (p) "can_id (frame m) = 0x01f3"
    | (u) "\<not> recognized m"
    by (auto simp: recognized_def)
  then show ?thesis
  proof cases
    case t
    with assms show ?thesis
      by (auto simp: handler_defs obs_defs frame_events_def accepted_def Let_def
          split: if_splits intro!: exI [of _ "[]"])
  next
    case b
    with assms show ?thesis
      by (auto simp: handler_defs obs_defs frame_events_def accepted_def Let_def
          split: if_splits intro!: exI [of _ "[]"])
  next
    case s
    with assms show ?thesis
      by (auto simp: handler_defs obs_defs frame_events_def accepted_def Let_def
          split: if_splits intro!: exI [of _ "[]"])
  next
    case p
    show ?thesis
    proof (cases "write_fails w (length (uinput w))")
      case True
      with p assms show ?thesis
        by (auto simp: handler_defs obs_defs frame_events_def accepted_def Let_def
            split: if_splits intro!: exI [of _ "[]"])
    next
      case False
      with p assms show ?thesis
        by (auto simp: handler_defs obs_defs frame_events_def accepted_def Let_def
            split: if_splits intro!: exI [of _ "take 1 (frame_events m)"])
    qed
  next
    case u
    with assms show ?thesis
      by (auto simp: handler_defs recognized_def)
  qed
qed

lemma HandleCanMessage_total:
  assumes "\<forall>k. \<not> write_fails w k"
  shows "\<exists>w'. HandleCanMessage m w = Return (recognized m) w'"
  using assms
  by (auto simp: handler_defs recognized_def Let_def)

lemma frame_events_not_sync: "e \<in> set (frame_events m) \<Longrightarrow> ev_type e \<noteq> EV_SYN"
  by (auto simp: handler_defs obs_defs frame_events_def Let_def split: if_splits)

subsection \<open>The loop over a batch\<close>

lemma handle_loop_Return:
  "handle_loop ms h w = Return h' w' \<Longrightarrow>
     w' = extend w (accepted (data_events ms)) (data_diags ms)
     \<and> h' = (h \<or> (\<exists>m\<in>set ms. recognized m))"
proof (induction ms arbitrary: h w)
  case Nil
  then show ?case by (simp add: data_events_def data_diags_def accepted_def)
next
  case (Cons m ms)
  from Cons.prems obtain a w1 where
    step: "HandleCanMessage m w = Return a w1" and rest: "handle_loop ms (h \<or> a) w1 = Return h' w'"
    by (auto split: outcome.splits)
  from HandleCanMessage_Return [OF step]
  have w1: "w1 = extend w (accepted (frame_events m)) (frame_diags m)" and a: "a = recognized m"
    by simp_all
  from Cons.IH [OF rest] w1 a show ?case
    by (auto simp: extend_extend accepted_append data_events_def data_diags_def)
qed

lemma handle_loop_Exit:
  "handle_loop ms h w = Exit c w' \<Longrightarrow>
     c = - 1 \<and> (\<exists>pre e. uinput w' = uinput w @ accepted pre @ [(e, False)]
                 \<and> prefix (pre @ [e]) (data_events ms))"
proof (induction ms arbitrary: h w)
  case Nil
  then show ?case by simp
next
  case (Cons m ms)
  show ?case
  proof (cases "HandleCanMessage m w")
    case (Exit c1 w1)
    with Cons.prems have eq: "c1 = c" "w1 = w'" by simp_all
    from HandleCanMessage_Exit [OF Exit] eq obtain pre e where
      "c = - 1" "uinput w' = uinput w @ accepted pre @ [(e, False)]"
      "prefix (pre @ [e]) (frame_events m)"
      by blast
    then show ?thesis
      by (auto simp: data_events_def intro: prefix_order.trans)
  next
    case (Return a w1)
    with Cons.prems have rest: "handle_loop ms (h \<or> a) w1 = Exit c w'" by simp
    from HandleCanMessage_Return [OF Return]
    have w1: "w1 = extend w (accepted (frame_events m)) (frame_diags m)" by simp
    from Cons.IH [OF rest] obtain pre e where
      c: "c = - 1" and u: "uinput w' = uinput w1 @ accepted pre @ [(e, False)]"
      and p: "prefix (pre @ [e]) (data_events ms)"
      by blast
    have "uinput w' = uinput w @ accepted (frame_events m @ pre) @ [(e, False)]"
      using u w1 by (simp add: accepted_append)
    moreover have "prefix ((frame_events m @ pre) @ [e]) (data_events (m # ms))"
      using p by (simp add: data_events_def)
    ultimately show ?thesis using c by blast
  qed
qed

lemma handle_loop_total:
  "\<forall>k. \<not> write_fails w k \<Longrightarrow>
     \<exists>w'. handle_loop ms h w = Return (h \<or> (\<exists>m\<in>set ms. recognized m)) w'"
proof (induction ms arbitrary: h w)
  case Nil
  then show ?case by simp
next
  case (Cons m ms)
  from HandleCanMessage_total [OF Cons.prems] obtain w1 where
    step: "HandleCanMessage m w = Return (recognized m) w1" by blast
  from HandleCanMessage_Return [OF step] Cons.prems
  have "\<forall>k. \<not> write_fails w1 k" by simp
  from Cons.IH [OF this, of "h \<or> recognized m"] step show ?case
    by auto
qed

lemma handle_loop_skip:
  "\<not> recognized m \<Longrightarrow> handle_loop (pre @ m # post) h w = handle_loop (pre @ post) h w"
proof (induction pre arbitrary: h w)
  case Nil
  then show ?case by (simp add: handler_defs recognized_def)
next
  case (Cons a pre)
  then show ?case by (simp split: outcome.splits)
qed

subsection \<open>Malformed and unrecognized frames\<close>

lemma malformed_cases:
  "malformed m \<longleftrightarrow>
     can_id (frame m) = 0x01a1 \<and> can_dlc (frame m) \<noteq> 7
     \<or> can_id (frame m) = 0x00f1 \<and> can_dlc (frame m) \<noteq> 6
     \<or> can_id (frame m) = 0x01e5 \<and> can_dlc (frame m) \<noteq> 8
     \<or> can_id (frame m) = 0x01f3 \<and> can_dlc (frame m) \<noteq> 3"
  by (auto simp: malformed_def recognized_def declared_length_def)

lemma malformed_Return:
  assumes "malformed m"
  shows "\<exists>line. malformed_diag line \<and> HandleCanMessage m w = Return True (fprintf_stderr line w)"
proof -
  from assms consider
    (t) "can_id (frame m) = 0x01a1" "can_dlc (frame m) \<noteq> 7"
    | (b) "can_id (frame m) = 0x00f1" "can_dlc (frame m) \<noteq> 6"
    | (s) "can_id (frame m) = 0x01e5" "can_dlc (frame m) \<noteq> 8"
    | (p) "can_id (frame m) = 0x01f3" "can_dlc (frame m) \<noteq> 3"
    by (auto simp: malformed_cases)
  then show ?thesis
  proof cases
    case t
    then have "HandleCanMessage m w = Return True (fprintf_stderr ''Malformed accelerator position'' w)"
      by (simp add: HandleCanMessage_def HandleThrottlePos_def kThrottleId_def)
    moreover have "malformed_diag ''Malformed accelerator position''"
      unfolding malformed_diag_def by blast
    ultimately show ?thesis by blast
  next
    case b
    then have "HandleCanMessage m w = Return True (fprintf_stderr ''Malformed brake position'' w)"
      by (simp add: HandleCanMessage_def HandleBrakePos_def kThrottleId_def kBrakeId_def)
    moreover have "malformed_diag ''Malformed brake position''"
      unfolding malformed_diag_def by blast
    ultimately show ?thesis by blast
  next
    case s
    then have "HandleCanMessage m w = Return True (fprintf_stderr ''Malformed steering position'' w)"
      by (simp add: HandleCanMessage_def HandleSteeringPos_def kThrottleId_def kBrakeId_def
          kSteeringId_def)
    moreover have "malformed_diag ''Malformed steering position''"
      unfolding malformed_diag_def by blast
    ultimately show ?thesis by blast
  next
    case p
    then have "HandleCanMessage m w = Return True (fprintf_stderr ''Malformed steering position'' w)"
      by (simp add: HandleCanMessage_def HandlePaddleShifter_def kThrottleId_def kBrakeId_def
          kSteeringId_def kPaddleShifterId_def)
    moreover have "malformed_diag ''Malformed steering position''"
      unfolding malformed_diag_def by blast
    ultimately show ?thesis by blast
  qed
qed

text \<open>
  Claim C5. A frame with a recognized identifier and a length other than the
  one declared for it makes no \<^verbatim>\<open>write\<close> call and submits no event; it prints
  exactly one line, a malformed-frame diagnostic; the handler returns, so the
  loop goes on with the next frame; and it returns \<open>True\<close>, so the frame counts
  as handled: a batch of this frame alone submits the sync event.
\<close>

theorem malformed_frame_skipped:
  assumes "malformed m"
  shows "\<exists>line. malformed_diag line
           \<and> HandleCanMessage m w = Return True (fprintf_stderr line w)
           \<and> submitted w (HandleCanMessage m w) = []
           \<and> new_diags w (HandleCanMessage m w) = [line]
           \<and> handle_loop (m # ms) h w = handle_loop ms True (fprintf_stderr line w)
           \<and> submitted w (CanPacketCallback [m] w) = [sync_event]"
proof -
  from malformed_Return [OF assms] obtain line where
    l: "malformed_diag line" and r: "HandleCanMessage m w = Return True (fprintf_stderr line w)"
    by blast
  from r have "submitted w (HandleCanMessage m w) = []"
    and "new_diags w (HandleCanMessage m w) = [line]"
    and "handle_loop (m # ms) h w = handle_loop ms True (fprintf_stderr line w)"
    and "submitted w (CanPacketCallback [m] w) = [sync_event]"
    by (simp_all add: submitted_def new_writes_def new_diags_def final_def fprintf_stderr_def
        CanPacketCallback_def write_event_def Let_def)
  with l r show ?thesis by blast
qed

theorem malformed_frame_skipped_witness:
  "malformed \<lparr>frame = \<lparr>can_id = 0x01a1, can_dlc = 5, data = [0, 0, 0, 0, 0, 0, 0, 0]\<rparr>\<rparr>
   \<and> (\<exists>line. malformed_diag line
        \<and> HandleCanMessage
             \<lparr>frame = \<lparr>can_id = 0x01a1, can_dlc = 5, data = [0, 0, 0, 0, 0, 0, 0, 0]\<rparr>\<rparr>
             accepting
           = Return True (fprintf_stderr line accepting))"
proof -
  have h: "malformed \<lparr>frame = \<lparr>can_id = 0x01a1, can_dlc = 5, data = [0, 0, 0, 0, 0, 0, 0, 0]\<rparr>\<rparr>"
    by (simp add: malformed_cases)
  from malformed_frame_skipped [OF h, of accepting "[]" False] h show ?thesis
    by blast
qed

text \<open>
  Claim C8. A frame whose identifier is none of the four recognized ones,
  whatever its length and payload, leaves the world as it was (no event, no
  diagnostic, no \<^verbatim>\<open>write\<close> call) and the handler returns \<open>False\<close>; it takes
  no part in the handled flag: a batch with the frame and the batch without it
  have the same outcome.
\<close>

theorem unrecognized_frame_silent:
  assumes "\<not> recognized m"
  shows "HandleCanMessage m w = Return False w
         \<and> submitted w (HandleCanMessage m w) = []
         \<and> new_diags w (HandleCanMessage m w) = []
         \<and> CanPacketCallback (pre @ m # post) w = CanPacketCallback (pre @ post) w"
proof -
  from assms have r: "HandleCanMessage m w = Return False w"
    by (simp add: handler_defs recognized_def)
  moreover have "CanPacketCallback (pre @ m # post) w = CanPacketCallback (pre @ post) w"
    by (simp add: CanPacketCallback_def handle_loop_skip [OF assms])
  ultimately show ?thesis
    by (simp add: submitted_def new_writes_def new_diags_def final_def)
qed

theorem unrecognized_frame_silent_witness:
  "\<not> recognized \<lparr>frame = \<lparr>can_id = 0x9999, can_dlc = 7, data = [0, 0, 0, 0, 0, 0, 0x80, 0]\<rparr>\<rparr>
   \<and> HandleCanMessage
        \<lparr>frame = \<lparr>can_id = 0x9999, can_dlc = 7, data = [0, 0, 0, 0, 0, 0, 0x80, 0]\<rparr>\<rparr> accepting
      = Return False accepting"
proof -
  have h: "\<not> recognized \<lparr>frame = \<lparr>can_id = 0x9999, can_dlc = 7, data = [0, 0, 0, 0, 0, 0, 0x80, 0]\<rparr>\<rparr>"
    by (simp add: recognized_def)
  from unrecognized_frame_silent [OF h, of accepting "[]" "[]"] h show ?thesis
    by blast
qed

subsection \<open>Well-formed frames\<close>

lemma declared_ranges:
  "sint (absmin uidev ABS_GAS) = 0" "sint (absmax uidev ABS_GAS) = 0xfe"
  "sint (absmin uidev ABS_BRAKE) = 0" "sint (absmax uidev ABS_BRAKE) = 0x4b"
  "sint (absmin uidev ABS_WHEEL) = - 0x1d00" "sint (absmax uidev ABS_WHEEL) = 0x1d00"
  by (simp_all add: uidev_def kThrottleLimit_def kBrakeLimit_def kSteeringLimit_def)

lemma throttle_submitted:
  assumes "can_id (frame m) = 0x01a1" "can_dlc (frame m) = 7"
  shows "submitted w (HandleCanMessage m w)
           = [\<lparr>ev_type = EV_ABS, ev_code = ABS_GAS, ev_value = ucast (data (frame m) ! 6)\<rparr>]"
  using assms by (simp add: handler_defs obs_defs Let_def)

lemma brake_submitted:
  assumes "can_id (frame m) = 0x00f1" "can_dlc (frame m) = 6"
  shows "submitted w (HandleCanMessage m w)
           = [\<lparr>ev_type = EV_ABS, ev_code = ABS_BRAKE, ev_value = ucast (data (frame m) ! 1)\<rparr>]"
  using assms by (simp add: handler_defs obs_defs Let_def)

lemma steering_submitted:
  assumes "can_id (frame m) = 0x01e5" "can_dlc (frame m) = 8"
  shows "submitted w (HandleCanMessage m w)
           = [\<lparr>ev_type = EV_ABS, ev_code = ABS_WHEEL,
               ev_value = - scast (word_cat (data (frame m) ! 1) (data (frame m) ! 2) :: s16)\<rparr>]"
  using assms by (simp add: handler_defs obs_defs Let_def steering_word_cat del: One_nat_def)

lemma paddle_submitted:
  assumes "can_id (frame m) = 0x01f3" "can_dlc (frame m) = 3"
    and "\<not> write_fails w (length (uinput w))"
  shows "submitted w (HandleCanMessage m w)
           = [\<lparr>ev_type = EV_KEY, ev_code = BTN_GEAR_UP,
               ev_value = of_bool (bit (data (frame m) ! 1) 0)\<rparr>,
              \<lparr>ev_type = EV_KEY, ev_code = BTN_GEAR_DOWN,
               ev_value = of_bool (bit (data (frame m) ! 1) 1)\<rparr>]"
  using assms mask_bit0 [of "data (frame m) ! 1"] mask_bit1 [of "data (frame m) ! 1"]
  by (simp add: handler_defs obs_defs Let_def)

lemma steering_value: "sint (- scast (word_cat d1 d2 :: s16) :: s32) = - be_s16 d1 d2"
  by (simp add: sint_neg_scast sint_word_cat_u8)

lemma be_s16_range: "- 32768 \<le> be_s16 hi lo \<and> be_s16 hi lo \<le> 32767"
  using sint_ge [of "word_cat hi lo :: u16"] sint_lt [of "word_cat hi lo :: u16"]
  by (simp add: sint_word_cat_u8)

lemma sint_of_bool: "sint (of_bool b :: s32) = of_bool b"
  by (cases b) simp_all

lemma ex_fields:
  "can_id (frame ex_throttle) = 0x01a1" "can_dlc (frame ex_throttle) = 7"
  "data (frame ex_throttle) ! 6 = 0x80"
  "can_id (frame ex_throttle_full) = 0x01a1" "can_dlc (frame ex_throttle_full) = 7"
  "data (frame ex_throttle_full) ! 6 = 0xff"
  "can_id (frame ex_brake) = 0x00f1" "can_dlc (frame ex_brake) = 6"
  "data (frame ex_brake) ! 1 = 0x20"
  "can_id (frame ex_brake_over) = 0x00f1" "can_dlc (frame ex_brake_over) = 6"
  "data (frame ex_brake_over) ! 1 = 0x4c"
  "can_id (frame ex_steering) = 0x01e5" "can_dlc (frame ex_steering) = 8"
  "raw_steering ex_steering = 256"
  "can_id (frame ex_steering_neg) = 0x01e5" "can_dlc (frame ex_steering_neg) = 8"
  "raw_steering ex_steering_neg = - 256"
  "can_id (frame ex_paddle) = 0x01f3" "can_dlc (frame ex_paddle) = 3"
  "data (frame ex_paddle) ! 1 = 3"
  "can_id (frame ex_paddle_idle) = 0x01f3" "can_dlc (frame ex_paddle_idle) = 3"
  "data (frame ex_paddle_idle) ! 1 = 0"
  "\<not> write_fails accepting (length (uinput accepting))"
  by (simp_all add: ex_defs ex2_defs raw_steering_def be_s16_def)

text \<open>
  Claim C3. A frame with a recognized identifier and the length declared for
  it submits exactly the events of the decode table: 0x01a1 with length 7 one
  \<open>EV_ABS\<close>/\<open>ABS_GAS\<close> event whose value is the unsigned byte at offset 6;
  0x00f1 with length 6 one \<open>EV_ABS\<close>/\<open>ABS_BRAKE\<close> event whose value is the
  unsigned byte at offset 1; 0x01e5 with length 8 one \<open>EV_ABS\<close>/\<open>ABS_WHEEL\<close>
  event whose value is the negation of the big-endian signed 16-bit integer at
  offsets 1-2; 0x01f3 with length 3 an \<open>EV_KEY\<close>/\<open>BTN_GEAR_UP\<close> event with bit
  0 of byte 1 and an \<open>EV_KEY\<close>/\<open>BTN_GEAR_DOWN\<close> event with bit 1 of byte 1
  (the second is reached when the write of the first is accepted). Nothing
  else is submitted for the frame.
\<close>

theorem wellformed_frame_decodes:
  "(can_id (frame m) = 0x01a1 \<and> can_dlc (frame m) = 7 \<longrightarrow>
      (\<exists>e. submitted w (HandleCanMessage m w) = [e]
         \<and> ev_type e = EV_ABS \<and> ev_code e = ABS_GAS
         \<and> sint (ev_value e) = uint (data (frame m) ! 6)))
   \<and> (can_id (frame m) = 0x00f1 \<and> can_dlc (frame m) = 6 \<longrightarrow>
      (\<exists>e. submitted w (HandleCanMessage m w) = [e]
         \<and> ev_type e = EV_ABS \<and> ev_code e = ABS_BRAKE
         \<and> sint (ev_value e) = uint (data (frame m) ! 1)))
   \<and> (can_id (frame m) = 0x01e5 \<and> can_dlc (frame m) = 8 \<longrightarrow>
      (\<exists>e. submitted w (HandleCanMessage m w) = [e]
         \<and> ev_type e = EV_ABS \<and> ev_code e = ABS_WHEEL
         \<and> sint (ev_value e) = - be_s16 (data (frame m) ! 1) (data (frame m) ! 2)))
   \<and> (can_id (frame m) = 0x01f3 \<and> can_dlc (frame m) = 3
        \<and> \<not> write_fails w (length (uinput w)) \<longrightarrow>
      (\<exists>up dn. submitted w (HandleCanMessage m w) = [up, dn]
         \<and> ev_type up = EV_KEY \<and> ev_code up = BTN_GEAR_UP
         \<and> sint (ev_value up) = of_bool (bit (data (frame m) ! 1) 0)
         \<and> ev_type dn = EV_KEY \<and> ev_code dn = BTN_GEAR_DOWN
         \<and> sint (ev_value dn) = of_bool (bit (data (frame m) ! 1) 1)))"
proof (intro conjI impI; elim conjE)
  assume "can_id (frame m) = 0x01a1" "can_dlc (frame m) = 7"
  from throttle_submitted [OF this, of w]
  show "\<exists>e. submitted w (HandleCanMessage m w) = [e]
         \<and> ev_type e = EV_ABS \<and> ev_code e = ABS_GAS
         \<and> sint (ev_value e) = uint (data (frame m) ! 6)"
    by (simp add: sint_ucast_u8)
next
  assume "can_id (frame m) = 0x00f1" "can_dlc (frame m) = 6"
  from brake_submitted [OF this, of w]
  show "\<exists>e. submitted w (HandleCanMessage m w) = [e]
         \<and> ev_type e = EV_ABS \<and> ev_code e = ABS_BRAKE
         \<and> sint (ev_value e) = uint (data (frame m) ! 1)"
    by (simp add: sint_ucast_u8)
next
  assume "can_id (frame m) = 0x01e5" "can_dlc (frame m) = 8"
  from steering_submitted [OF this, of w]
  show "\<exists>e. submitted w (HandleCanMessage m w) = [e]
         \<and> ev_type e = EV_ABS \<and> ev_code e = ABS_WHEEL
         \<and> sint (ev_value e) = - be_s16 (data (frame m) ! 1) (data (frame m) ! 2)"
    by (simp add: steering_value)
next
  assume "can_id (frame m) = 0x01f3" "can_dlc (frame m) = 3"
    "\<not> write_fails w (length (uinput w))"
  from paddle_submitted [OF this]
  show "\<exists>up dn. submitted w (HandleCanMessage m w) = [up, dn]
         \<and> ev_type up = EV_KEY \<and> ev_code up = BTN_GEAR_UP
         \<and> sint (ev_value up) = of_bool (bit (data (frame m) ! 1) 0)
         \<and> ev_type dn = EV_KEY \<and> ev_code dn = BTN_GEAR_DOWN
         \<and> sint (ev_value dn) = of_bool (bit (data (frame m) ! 1) 1)"
    by (simp add: sint_of_bool)
qed

theorem wellformed_frame_decodes_witness:
  "(can_id (frame ex_throttle) = 0x01a1 \<and> can_dlc (frame ex_throttle) = 7)
   \<and> (\<exists>e. submitted accepting (HandleCanMessage ex_throttle accepting) = [e]
         \<and> ev_type e = EV_ABS \<and> ev_code e = ABS_GAS \<and> sint (ev_value e) = 128)
   \<and> (can_id (frame ex_brake) = 0x00f1 \<and> can_dlc (frame ex_brake) = 6)
   \<and> (\<exists>e. submitted accepting (HandleCanMessage ex_brake accepting) = [e]
         \<and> ev_type e = EV_ABS \<and> ev_code e = ABS_BRAKE \<and> sint (ev_value e) = 32)
   \<and> (can_id (frame ex_steering) = 0x01e5 \<and> can_dlc (frame ex_steering) = 8)
   \<and> (\<exists>e. submitted accepting (HandleCanMessage ex_steering accepting) = [e]
         \<and> ev_type e = EV_ABS \<and> ev_code e = ABS_WHEEL \<and> sint (ev_value e) = - 256)
   \<and> (can_id (frame ex_paddle) = 0x01f3 \<and> can_dlc (frame ex_paddle) = 3
        \<and> \<not> write_fails accepting (length (uinput accepting)))
   \<and> (\<exists>up dn. submitted accepting (HandleCanMessage ex_paddle accepting) = [up, dn]
         \<and> ev_code up = BTN_GEAR_UP \<and> sint (ev_value up) = 1
         \<and> ev_code dn = BTN_GEAR_DOWN \<and> sint (ev_value dn) = 1)"
proof -
  have b: "bit (3 :: u8) 0" "bit (3 :: u8) 1" by (simp_all add: bit_simps)
  have r: "be_s16 (data (frame ex_steering) ! 1) (data (frame ex_steering) ! 2) = 256"
    using ex_fields(15) by (simp add: raw_steering_def)
  from wellformed_frame_decodes [of ex_throttle accepting] ex_fields(1-3)
  have "\<exists>e. submitted accepting (HandleCanMessage ex_throttle accepting) = [e]
         \<and> ev_type e = EV_ABS \<and> ev_code e = ABS_GAS \<and> sint (ev_value e) = 128"
    by simp
  moreover from wellformed_frame_decodes [of ex_brake accepting] ex_fields(7-9)
  have "\<exists>e. submitted accepting (HandleCanMessage ex_brake accepting) = [e]
         \<and> ev_type e = EV_ABS \<and> ev_code e = ABS_BRAKE \<and> sint (ev_value e) = 32"
    by simp
  moreover from wellformed_frame_decodes [of ex_steering accepting] ex_fields(13,14) r
  have "\<exists>e. submitted accepting (HandleCanMessage ex_steering accepting) = [e]
         \<and> ev_type e = EV_ABS \<and> ev_code e = ABS_WHEEL \<and> sint (ev_value e) = - 256"
    by simp
  moreover from wellformed_frame_decodes [of ex_paddle accepting] ex_fields(19-21,25) b
  have "\<exists>up dn. submitted accepting (HandleCanMessage ex_paddle accepting) = [up, dn]
         \<and> ev_code up = BTN_GEAR_UP \<and> sint (ev_value up) = 1
         \<and> ev_code dn = BTN_GEAR_DOWN \<and> sint (ev_value dn) = 1"
    by auto
  ultimately show ?thesis using ex_fields by simp
qed

text \<open>
  Claim C7. A paddle-shifter frame (identifier 0x01f3, length 3) decodes to
  exactly two button events, \<open>BTN_GEAR_UP\<close> then \<open>BTN_GEAR_DOWN\<close>, each with
  its bit of byte 1, whatever the bits are; with byte 1 zero both are
  submitted with value 0. These are the records the handler submits on any
  device that accepts the first of the two writes.
\<close>

theorem paddle_two_buttons:
  assumes "can_id (frame m) = 0x01f3" and "can_dlc (frame m) = 3"
  shows "frame_events m
           = [\<lparr>ev_type = EV_KEY, ev_code = BTN_GEAR_UP,
               ev_value = of_bool (bit (data (frame m) ! 1) 0)\<rparr>,
              \<lparr>ev_type = EV_KEY, ev_code = BTN_GEAR_DOWN,
               ev_value = of_bool (bit (data (frame m) ! 1) 1)\<rparr>]
         \<and> (\<not> write_fails w (length (uinput w)) \<longrightarrow>
              submitted w (HandleCanMessage m w) = frame_events m)
         \<and> length (frame_events m) = 2
         \<and> (data (frame m) ! 1 = 0 \<longrightarrow>
              frame_events m
                = [\<lparr>ev_type = EV_KEY, ev_code = BTN_GEAR_UP, ev_value = 0\<rparr>,
                   \<lparr>ev_type = EV_KEY, ev_code = BTN_GEAR_DOWN, ev_value = 0\<rparr>])"
proof -
  have "\<not> write_fails accepting (length (uinput accepting))" by (simp add: accepting_def)
  from paddle_submitted [OF assms this]
  have f: "frame_events m
           = [\<lparr>ev_type = EV_KEY, ev_code = BTN_GEAR_UP,
               ev_value = of_bool (bit (data (frame m) ! 1) 0)\<rparr>,
              \<lparr>ev_type = EV_KEY, ev_code = BTN_GEAR_DOWN,
               ev_value = of_bool (bit (data (frame m) ! 1) 1)\<rparr>]"
    by (simp add: frame_events_def)
  moreover have "\<not> write_fails w (length (uinput w)) \<longrightarrow>
              submitted w (HandleCanMessage m w) = frame_events m"
    using paddle_submitted [OF assms, of w] f by simp
  ultimately show ?thesis by simp
qed

theorem paddle_two_buttons_witness:
  "can_id (frame ex_paddle_idle) = 0x01f3 \<and> can_dlc (frame ex_paddle_idle) = 3
   \<and> data (frame ex_paddle_idle) ! 1 = 0
   \<and> \<not> write_fails accepting (length (uinput accepting))
   \<and> submitted accepting (HandleCanMessage ex_paddle_idle accepting)
       = [\<lparr>ev_type = EV_KEY, ev_code = BTN_GEAR_UP, ev_value = 0\<rparr>,
          \<lparr>ev_type = EV_KEY, ev_code = BTN_GEAR_DOWN, ev_value = 0\<rparr>]"
  using paddle_two_buttons [of ex_paddle_idle accepting] ex_fields(22-25)
  by simp

text \<open>
  Claim C10. For a throttle frame (0x01a1, length 7) and a brake frame
  (0x00f1, length 6) the value submitted is the extracted byte as it is, so it
  lies in 0..255 and is never negative; nothing clamps it to the declared
  maximum: a byte above \<open>kThrottleLimit\<close> (\<open>kBrakeLimit\<close>) gives a value above
  the \<open>absmax\<close> of the descriptor.
\<close>

theorem pedal_value_verbatim:
  "(can_id (frame m) = 0x01a1 \<and> can_dlc (frame m) = 7 \<longrightarrow>
      (\<exists>e. submitted w (HandleCanMessage m w) = [e] \<and> ev_code e = ABS_GAS
         \<and> sint (ev_value e) = uint (data (frame m) ! 6)
         \<and> 0 \<le> sint (ev_value e) \<and> sint (ev_value e) \<le> 255
         \<and> (kThrottleLimit < data (frame m) ! 6 \<longrightarrow>
               sint (absmax uidev ABS_GAS) < sint (ev_value e))))
   \<and> (can_id (frame m) = 0x00f1 \<and> can_dlc (frame m) = 6 \<longrightarrow>
      (\<exists>e. submitted w (HandleCanMessage m w) = [e] \<and> ev_code e = ABS_BRAKE
         \<and> sint (ev_value e) = uint (data (frame m) ! 1)
         \<and> 0 \<le> sint (ev_value e) \<and> sint (ev_value e) \<le> 255
         \<and> (kBrakeLimit < data (frame m) ! 1 \<longrightarrow>
               sint (absmax uidev ABS_BRAKE) < sint (ev_value e))))"
proof (intro conjI impI; elim conjE)
  assume a: "can_id (frame m) = 0x01a1" "can_dlc (frame m) = 7"
  have "uint (data (frame m) ! 6) \<le> 255"
    using uint_u8_bound [of "data (frame m) ! 6"] by simp
  moreover have "kThrottleLimit < data (frame m) ! 6 \<longrightarrow> 254 < uint (data (frame m) ! 6)"
    by (simp add: kThrottleLimit_def word_less_def)
  ultimately
  show "\<exists>e. submitted w (HandleCanMessage m w) = [e] \<and> ev_code e = ABS_GAS
         \<and> sint (ev_value e) = uint (data (frame m) ! 6)
         \<and> 0 \<le> sint (ev_value e) \<and> sint (ev_value e) \<le> 255
         \<and> (kThrottleLimit < data (frame m) ! 6 \<longrightarrow>
               sint (absmax uidev ABS_GAS) < sint (ev_value e))"
    using throttle_submitted [OF a, of w]
    by (simp add: sint_ucast_u8 declared_ranges)
next
  assume a: "can_id (frame m) = 0x00f1" "can_dlc (frame m) = 6"
  have "uint (data (frame m) ! 1) \<le> 255"
    using uint_u8_bound [of "data (frame m) ! 1"] by simp
  moreover have "kBrakeLimit < data (frame m) ! 1 \<longrightarrow> 75 < uint (data (frame m) ! 1)"
    by (simp add: kBrakeLimit_def word_less_def)
  ultimately
  show "\<exists>e. submitted w (HandleCanMessage m w) = [e] \<and> ev_code e = ABS_BRAKE
         \<and> sint (ev_value e) = uint (data (frame m) ! 1)
         \<and> 0 \<le> sint (ev_value e) \<and> sint (ev_value e) \<le> 255
         \<and> (kBrakeLimit < data (frame m) ! 1 \<longrightarrow>
               sint (absmax uidev ABS_BRAKE) < sint (ev_value e))"
    using brake_submitted [OF a, of w]
    by (simp add: sint_ucast_u8 declared_ranges)
qed

theorem pedal_value_verbatim_witness:
  "(can_id (frame ex_throttle_full) = 0x01a1 \<and> can_dlc (frame ex_throttle_full) = 7
      \<and> kThrottleLimit < data (frame ex_throttle_full) ! 6)
   \<and> (\<exists>e. submitted accepting (HandleCanMessage ex_throttle_full accepting) = [e]
         \<and> sint (ev_value e) = 255 \<and> sint (absmax uidev ABS_GAS) < sint (ev_value e))
   \<and> (can_id (frame ex_brake_over) = 0x00f1 \<and> can_dlc (frame ex_brake_over) = 6
      \<and> kBrakeLimit < data (frame ex_brake_over) ! 1)
   \<and> (\<exists>e. submitted accepting (HandleCanMessage ex_brake_over accepting) = [e]
         \<and> sint (ev_value e) = 76 \<and> sint (absmax uidev ABS_BRAKE) < sint (ev_value e))"
proof -
  have l: "kThrottleLimit < data (frame ex_throttle_full) ! 6"
    "kBrakeLimit < data (frame ex_brake_over) ! 1"
    by (simp_all add: ex_defs ex2_defs kThrottleLimit_def kBrakeLimit_def)
  from pedal_value_verbatim [of ex_throttle_full accepting] ex_fields(4-6) l(1)
  have "\<exists>e. submitted accepting (HandleCanMessage ex_throttle_full accepting) = [e]
         \<and> sint (ev_value e) = 255 \<and> sint (absmax uidev ABS_GAS) < sint (ev_value e)"
    by auto
  moreover from pedal_value_verbatim [of ex_brake_over accepting] ex_fields(10-12) l(2)
  have "\<exists>e. submitted accepting (HandleCanMessage ex_brake_over accepting) = [e]
         \<and> sint (ev_value e) = 76 \<and> sint (absmax uidev ABS_BRAKE) < sint (ev_value e)"
    by auto
  ultimately show ?thesis using ex_fields l by simp
qed

text \<open>
  Claim C6. For steering frames (0x01e5, length 8) the \<open>ABS_WHEEL\<close> value
  submitted is the negation of the raw big-endian signed 16-bit value at
  offsets 1-2. Hence two frames whose raw values are negations of each other
  give values that are negations of each other, and a smaller raw value gives
  a greater wheel value.
\<close>

theorem steering_negation:
  assumes "can_id (frame m1) = 0x01e5" and "can_dlc (frame m1) = 8"
    and "can_id (frame m2) = 0x01e5" and "can_dlc (frame m2) = 8"
  shows "\<exists>e1 e2. submitted w1 (HandleCanMessage m1 w1) = [e1]
           \<and> submitted w2 (HandleCanMessage m2 w2) = [e2]
           \<and> ev_type e1 = EV_ABS \<and> ev_code e1 = ABS_WHEEL
           \<and> sint (ev_value e1) = - raw_steering m1
           \<and> sint (ev_value e2) = - raw_steering m2
           \<and> (raw_steering m2 = - raw_steering m1 \<longrightarrow>
                 sint (ev_value e2) = - sint (ev_value e1))
           \<and> (raw_steering m1 < raw_steering m2 \<longrightarrow>
                 sint (ev_value e2) < sint (ev_value e1))"
  using steering_submitted [OF assms(1,2), of w1] steering_submitted [OF assms(3,4), of w2]
  by (simp add: steering_value raw_steering_def)

theorem steering_negation_witness:
  "(can_id (frame ex_steering_neg) = 0x01e5 \<and> can_dlc (frame ex_steering_neg) = 8)
   \<and> (can_id (frame ex_steering) = 0x01e5 \<and> can_dlc (frame ex_steering) = 8)
   \<and> raw_steering ex_steering_neg = - 256 \<and> raw_steering ex_steering = 256
   \<and> (\<exists>e1 e2. submitted accepting (HandleCanMessage ex_steering_neg accepting) = [e1]
         \<and> submitted accepting (HandleCanMessage ex_steering accepting) = [e2]
         \<and> sint (ev_value e1) = 256 \<and> sint (ev_value e2) = - 256
         \<and> sint (ev_value e2) = - sint (ev_value e1)
         \<and> sint (ev_value e2) < sint (ev_value e1))"
proof -
  from steering_negation [OF ex_fields(16,17,13,14), of accepting accepting] ex_fields(15,18)
  have "\<exists>e1 e2. submitted accepting (HandleCanMessage ex_steering_neg accepting) = [e1]
         \<and> submitted accepting (HandleCanMessage ex_steering accepting) = [e2]
         \<and> sint (ev_value e1) = 256 \<and> sint (ev_value e2) = - 256
         \<and> sint (ev_value e2) = - sint (ev_value e1)
         \<and> sint (ev_value e2) < sint (ev_value e1)"
    by auto
  then show ?thesis using ex_fields by simp
qed

subsection \<open>The declared axis ranges\<close>

lemma abs_event_frames:
  assumes "e \<in> set (submitted w (HandleCanMessage m w))" and "ev_type e = EV_ABS"
  shows "can_id (frame m) = 0x01a1 \<and> can_dlc (frame m) = 7
         \<or> can_id (frame m) = 0x00f1 \<and> can_dlc (frame m) = 6
         \<or> can_id (frame m) = 0x01e5 \<and> can_dlc (frame m) = 8"
proof (rule ccontr)
  assume n: "\<not> ?thesis"
  have "\<forall>x\<in>set (submitted w (HandleCanMessage m w)). ev_type x = EV_KEY"
  proof (cases "can_id (frame m) = 0x01f3 \<and> can_dlc (frame m) = 3")
    case True
    then show ?thesis
      by (auto simp: handler_defs obs_defs Let_def)
  next
    case False
    show ?thesis
    proof (cases "recognized m")
      case True
      with False n have "malformed m"
        by (auto simp: malformed_cases recognized_def)
      from malformed_Return [OF this, of w] obtain line where
        "HandleCanMessage m w = Return True (fprintf_stderr line w)" by blast
      then show ?thesis
        by (simp add: submitted_def new_writes_def final_def fprintf_stderr_def)
    next
      case False
      then have "HandleCanMessage m w = Return False w"
        by (simp add: handler_defs recognized_def)
      then show ?thesis
        by (simp add: submitted_def new_writes_def final_def)
    qed
  qed
  with assms show False by auto
qed

text \<open>
  Claim C1, as stated, fails: the decode does not clamp. A throttle byte 0xff
  gives \<open>ABS_GAS\<close> 255 above 0xfe, a brake byte 0x4c gives \<open>ABS_BRAKE\<close> 76
  above 0x4b, and the raw steering value 0x1d01 gives \<open>ABS_WHEEL\<close> -7425
  below -0x1d00.
\<close>

theorem axis_range_counterexample:
  "submitted accepting (HandleCanMessage ex_throttle_full accepting)
     = [\<lparr>ev_type = EV_ABS, ev_code = ABS_GAS, ev_value = 255\<rparr>]
   \<and> \<not> in_declared_range \<lparr>ev_type = EV_ABS, ev_code = ABS_GAS, ev_value = 255\<rparr>
   \<and> submitted accepting (HandleCanMessage ex_brake_over accepting)
     = [\<lparr>ev_type = EV_ABS, ev_code = ABS_BRAKE, ev_value = 76\<rparr>]
   \<and> \<not> in_declared_range \<lparr>ev_type = EV_ABS, ev_code = ABS_BRAKE, ev_value = 76\<rparr>
   \<and> submitted accepting (HandleCanMessage ex_steering_over accepting)
     = [\<lparr>ev_type = EV_ABS, ev_code = ABS_WHEEL, ev_value = - 7425\<rparr>]
   \<and> \<not> in_declared_range \<lparr>ev_type = EV_ABS, ev_code = ABS_WHEEL, ev_value = - 7425\<rparr>"
  by (simp add: handler_defs obs_defs ex_defs ex2_defs Let_def in_declared_range_def
      declared_ranges)

text \<open>
  Claim C1, amended. An \<open>EV_ABS\<close> event is submitted only for a well-formed
  throttle, brake or steering frame, and its value lies in the range the
  descriptor declares for its code exactly when the raw payload value does:
  the throttle byte at most 0xfe, the brake byte at most 0x4b, the raw
  steering value within -0x1d00..0x1d00. For every payload the value is
  bounded by its type only: \<open>ABS_GAS\<close> and \<open>ABS_BRAKE\<close> in 0..255,
  \<open>ABS_WHEEL\<close> in -32767..32768.
\<close>

theorem axis_value_range:
  "(can_id (frame m) = 0x01a1 \<and> can_dlc (frame m) = 7 \<longrightarrow>
      (\<exists>e. submitted w (HandleCanMessage m w) = [e]
         \<and> ev_type e = EV_ABS \<and> ev_code e = ABS_GAS
         \<and> 0 \<le> sint (ev_value e) \<and> sint (ev_value e) \<le> 255
         \<and> (in_declared_range e \<longleftrightarrow> data (frame m) ! 6 \<le> kThrottleLimit)))
   \<and> (can_id (frame m) = 0x00f1 \<and> can_dlc (frame m) = 6 \<longrightarrow>
      (\<exists>e. submitted w (HandleCanMessage m w) = [e]
         \<and> ev_type e = EV_ABS \<and> ev_code e = ABS_BRAKE
         \<and> 0 \<le> sint (ev_value e) \<and> sint (ev_value e) \<le> 255
         \<and> (in_declared_range e \<longleftrightarrow> data (frame m) ! 1 \<le> kBrakeLimit)))
   \<and> (can_id (frame m) = 0x01e5 \<and> can_dlc (frame m) = 8 \<longrightarrow>
      (\<exists>e. submitted w (HandleCanMessage m w) = [e]
         \<and> ev_type e = EV_ABS \<and> ev_code e = ABS_WHEEL
         \<and> - 32767 \<le> sint (ev_value e) \<and> sint (ev_value e) \<le> 32768
         \<and> (in_declared_range e \<longleftrightarrow>
               - sint kSteeringLimit \<le> raw_steering m \<and> raw_steering m \<le> sint kSteeringLimit)))
   \<and> (\<forall>e\<in>set (submitted w (HandleCanMessage m w)). ev_type e = EV_ABS \<longrightarrow>
         can_id (frame m) = 0x01a1 \<and> can_dlc (frame m) = 7
         \<or> can_id (frame m) = 0x00f1 \<and> can_dlc (frame m) = 6
         \<or> can_id (frame m) = 0x01e5 \<and> can_dlc (frame m) = 8)"
proof (intro conjI impI ballI; (elim conjE)?)
  assume a: "can_id (frame m) = 0x01a1" "can_dlc (frame m) = 7"
  have "uint (data (frame m) ! 6) \<le> 255"
    using uint_u8_bound [of "data (frame m) ! 6"] by simp
  then show "\<exists>e. submitted w (HandleCanMessage m w) = [e]
         \<and> ev_type e = EV_ABS \<and> ev_code e = ABS_GAS
         \<and> 0 \<le> sint (ev_value e) \<and> sint (ev_value e) \<le> 255
         \<and> (in_declared_range e \<longleftrightarrow> data (frame m) ! 6 \<le> kThrottleLimit)"
    using throttle_submitted [OF a, of w]
    by (simp add: sint_ucast_u8 declared_ranges in_declared_range_def kThrottleLimit_def
        word_le_def)
next
  assume a: "can_id (frame m) = 0x00f1" "can_dlc (frame m) = 6"
  have "uint (data (frame m) ! 1) \<le> 255"
    using uint_u8_bound [of "data (frame m) ! 1"] by simp
  then show "\<exists>e. submitted w (HandleCanMessage m w) = [e]
         \<and> ev_type e = EV_ABS \<and> ev_code e = ABS_BRAKE
         \<and> 0 \<le> sint (ev_value e) \<and> sint (ev_value e) \<le> 255
         \<and> (in_declared_range e \<longleftrightarrow> data (frame m) ! 1 \<le> kBrakeLimit)"
    using brake_submitted [OF a, of w]
    by (simp add: sint_ucast_u8 declared_ranges in_declared_range_def kBrakeLimit_def
        word_le_def)
next
  assume a: "can_id (frame m) = 0x01e5" "can_dlc (frame m) = 8"
  have "- 32768 \<le> raw_steering m \<and> raw_steering m \<le> 32767"
    unfolding raw_steering_def by (rule be_s16_range)
  then show "\<exists>e. submitted w (HandleCanMessage m w) = [e]
         \<and> ev_type e = EV_ABS \<and> ev_code e = ABS_WHEEL
         \<and> - 32767 \<le> sint (ev_value e) \<and> sint (ev_value e) \<le> 32768
         \<and> (in_declared_range e \<longleftrightarrow>
               - sint kSteeringLimit \<le> raw_steering m \<and> raw_steering m \<le> sint kSteeringLimit)"
    using steering_submitted [OF a, of w]
    by (auto simp: steering_value declared_ranges in_declared_range_def kSteeringLimit_def
        raw_steering_def)
next
  fix e
  assume "e \<in> set (submitted w (HandleCanMessage m w))" "ev_type e = EV_ABS"
  then show "can_id (frame m) = 0x01a1 \<and> can_dlc (frame m) = 7
         \<or> can_id (frame m) = 0x00f1 \<and> can_dlc (frame m) = 6
         \<or> can_id (frame m) = 0x01e5 \<and> can_dlc (frame m) = 8"
    by (rule abs_event_frames)
qed

theorem axis_value_range_witness:
  "(can_id (frame ex_throttle) = 0x01a1 \<and> can_dlc (frame ex_throttle) = 7
      \<and> data (frame ex_throttle) ! 6 \<le> kThrottleLimit)
   \<and> (\<exists>e. submitted accepting (HandleCanMessage ex_throttle accepting) = [e]
         \<and> ev_type e = EV_ABS \<and> in_declared_range e)
   \<and> (can_id (frame ex_brake) = 0x00f1 \<and> can_dlc (frame ex_brake) = 6
      \<and> data (frame ex_brake) ! 1 \<le> kBrakeLimit)
   \<and> (\<exists>e. submitted accepting (HandleCanMessage ex_brake accepting) = [e]
         \<and> ev_type e = EV_ABS \<and> in_declared_range e)
   \<and> (can_id (frame ex_steering) = 0x01e5 \<and> can_dlc (frame ex_steering) = 8
      \<and> - sint kSteeringLimit \<le> raw_steering ex_steering
      \<and> raw_steering ex_steering \<le> sint kSteeringLimit)
   \<and> (\<exists>e. submitted accepting (HandleCanMessage ex_steering accepting) = [e]
         \<and> ev_type e = EV_ABS \<and> in_declared_range e)"
proof -
  have l: "data (frame ex_throttle) ! 6 \<le> kThrottleLimit"
    "data (frame ex_brake) ! 1 \<le> kBrakeLimit"
    "- sint kSteeringLimit \<le> raw_steering ex_steering"
    "raw_steering ex_steering \<le> sint kSteeringLimit"
    by (simp_all add: ex_defs ex2_defs raw_steering_def be_s16_def
        kThrottleLimit_def kBrakeLimit_def kSteeringLimit_def)
  from axis_value_range [of ex_throttle accepting] ex_fields(1,2) l(1)
  have "\<exists>e. submitted accepting (HandleCanMessage ex_throttle accepting) = [e]
         \<and> ev_type e = EV_ABS \<and> in_declared_range e"
    by auto
  moreover from axis_value_range [of ex_brake accepting] ex_fields(7,8) l(2)
  have "\<exists>e. submitted accepting (HandleCanMessage ex_brake accepting) = [e]
         \<and> ev_type e = EV_ABS \<and> in_declared_range e"
    by auto
  moreover from axis_value_range [of ex_steering accepting] ex_fields(13,14) l(3,4)
  have "\<exists>e. submitted accepting (HandleCanMessage ex_steering accepting) = [e]
         \<and> ev_type e = EV_ABS \<and> in_declared_range e"
    by auto
  ultimately show ?thesis using ex_fields l by simp
qed

subsection \<open>The callback\<close>

lemma handle_loop_unrecognized:
  "\<forall>m\<in>set ms. \<not> recognized m \<Longrightarrow> handle_loop ms h w = Return h w"
proof (induction ms arbitrary: h w)
  case Nil
  then show ?case by simp
next
  case (Cons m ms)
  then have "HandleCanMessage m w = Return False w"
    by (simp add: handler_defs recognized_def)
  with Cons show ?case by simp
qed

lemma CanPacketCallback_unhandled:
  assumes "\<forall>m\<in>set ms. \<not> recognized m"
  shows "CanPacketCallback ms w = Return () w"
  by (simp add: CanPacketCallback_def handle_loop_unrecognized [OF assms])

lemma CanPacketCallback_Return:
  assumes "CanPacketCallback ms w = Return u w'" and "\<exists>m\<in>set ms. recognized m"
  shows "\<exists>ok. uinput w' = uinput w @ accepted (data_events ms) @ [(sync_event, ok)]
              \<and> stderr w' = stderr w @ data_diags ms
                    @ (if ok then [] else [''Failed to write sync event: %d (%s)''])"
proof -
  from assms(1) obtain h w1 where loop: "handle_loop ms False w = Return h w1"
    by (auto simp: CanPacketCallback_def split: outcome.splits)
  from handle_loop_Return [OF loop] assms(2)
  have w1: "w1 = extend w (accepted (data_events ms)) (data_diags ms)" and h: "h" by simp_all
  show ?thesis
  proof (cases "write_fails w1 (length (uinput w1))")
    case True
    with assms(1) loop h have
      "w' = fprintf_stderr ''Failed to write sync event: %d (%s)''
              (w1\<lparr>uinput := uinput w1 @ [(sync_event, False)]\<rparr>)"
      by (simp add: CanPacketCallback_def write_event_def Let_def)
    then have "uinput w' = uinput w @ accepted (data_events ms) @ [(sync_event, False)]"
      and "stderr w' = stderr w @ data_diags ms @ [''Failed to write sync event: %d (%s)'']"
      by (simp_all add: w1 fprintf_stderr_def)
    then show ?thesis by (intro exI [of _ False]) simp
  next
    case False
    with assms(1) loop h have "w' = w1\<lparr>uinput := uinput w1 @ [(sync_event, True)]\<rparr>"
      by (simp add: CanPacketCallback_def write_event_def Let_def)
    then have "uinput w' = uinput w @ accepted (data_events ms) @ [(sync_event, True)]"
      and "stderr w' = stderr w @ data_diags ms"
      by (simp_all add: w1)
    then show ?thesis by (intro exI [of _ True]) simp
  qed
qed

lemma CanPacketCallback_Exit:
  assumes "CanPacketCallback ms w = Exit c w'"
  shows "c = - 1 \<and> (\<exists>pre e. uinput w' = uinput w @ accepted pre @ [(e, False)]
                 \<and> prefix (pre @ [e]) (data_events ms))"
proof -
  from assms have "handle_loop ms False w = Exit c w'"
    by (auto simp: CanPacketCallback_def Let_def split: outcome.splits if_splits prod.splits)
  then show ?thesis by (rule handle_loop_Exit)
qed

lemma CanPacketCallback_total:
  assumes "\<forall>k. \<not> write_fails w k"
  shows "\<exists>w'. CanPacketCallback ms w = Return () w'"
proof -
  from handle_loop_total [OF assms, of ms False] obtain h w1 where
    "handle_loop ms False w = Return h w1" by blast
  then show ?thesis
    by (simp add: CanPacketCallback_def Let_def split: prod.splits)
qed

lemma data_events_not_sync: "e \<in> set (data_events ms) \<Longrightarrow> ev_type e \<noteq> EV_SYN"
  by (auto simp: data_events_def dest: frame_events_not_sync)

lemma data_events_unrecognized:
  "\<forall>m\<in>set ms. \<not> recognized m \<Longrightarrow> data_events ms = []"
  by (auto simp: data_events_def frame_events_def handler_defs obs_defs recognized_def)

lemma batch_events_eq:
  "batch_events ms = data_events ms @ (if \<exists>m\<in>set ms. recognized m then [sync_event] else [])"
proof -
  have acc: "\<forall>k. \<not> write_fails accepting k" by (simp add: accepting_def)
  from CanPacketCallback_total [OF acc, of ms] obtain w' where
    r: "CanPacketCallback ms accepting = Return () w'" by blast
  show ?thesis
  proof (cases "\<exists>m\<in>set ms. recognized m")
    case True
    from CanPacketCallback_Return [OF r True] obtain ok where
      "uinput w' = uinput accepting @ accepted (data_events ms) @ [(sync_event, ok)]" by blast
    with r True show ?thesis
      by (simp add: batch_events_def submitted_def new_writes_def final_def accepted_def comp_def)
  next
    case False
    then have "\<forall>m\<in>set ms. \<not> recognized m" by simp
    from CanPacketCallback_unhandled [OF this, of accepting] data_events_unrecognized [OF this]
    show ?thesis using False
      by (simp add: batch_events_def submitted_def new_writes_def final_def)
  qed
qed

lemma new_writes_Return: "uinput w' = uinput w @ xs \<Longrightarrow> new_writes w (Return u w') = xs"
  by (simp add: new_writes_def final_def)

lemma new_writes_Exit: "uinput w' = uinput w @ xs \<Longrightarrow> new_writes w (Exit c w') = xs"
  by (simp add: new_writes_def final_def)

lemma refused_in_accepted: "(e, False) \<in> set (accepted pre @ [(e', b)]) \<Longrightarrow> e = e' \<and> \<not> b"
  by (auto simp: accepted_def)

lemma submitted_Return:
  assumes "CanPacketCallback ms w = Return u w'"
  shows "submitted w (CanPacketCallback ms w) = batch_events ms"
proof (cases "\<exists>m\<in>set ms. recognized m")
  case True
  from CanPacketCallback_Return [OF assms True] obtain ok where
    "uinput w' = uinput w @ accepted (data_events ms) @ [(sync_event, ok)]" by blast
  from new_writes_Return [OF this, of u] assms True show ?thesis
    by (simp add: submitted_def batch_events_eq accepted_def comp_def)
next
  case False
  then have un: "\<forall>m\<in>set ms. \<not> recognized m" by simp
  from CanPacketCallback_unhandled [OF un, of w] data_events_unrecognized [OF un] False
  show ?thesis
    by (simp add: submitted_def new_writes_def final_def batch_events_eq)
qed

lemma submitted_Exit:
  assumes "CanPacketCallback ms w = Exit c w'"
  shows "\<exists>pre e. new_writes w (CanPacketCallback ms w) = accepted pre @ [(e, False)]
           \<and> prefix (pre @ [e]) (data_events ms) \<and> last (uinput w') = (e, False) \<and> c = - 1"
proof -
  from CanPacketCallback_Exit [OF assms] obtain pre e where
    c: "c = - 1" and u: "uinput w' = uinput w @ accepted pre @ [(e, False)]"
    and p: "prefix (pre @ [e]) (data_events ms)" by blast
  from new_writes_Exit [OF u, of c] assms
  have "new_writes w (CanPacketCallback ms w) = accepted pre @ [(e, False)]" by simp
  moreover from u have "last (uinput w') = (e, False)" by simp
  ultimately show ?thesis using p c by blast
qed

text \<open>
  Claim C2. A callback on a device that accepts every write returns. Whenever
  the callback returns (the batch was processed to its end): if some frame of
  the batch has a recognized identifier, well-formed or not, the records
  submitted are the per-frame events of the batch, none of them a sync event,
  followed by the sync event, so exactly one sync event is submitted, after
  all the others; if no frame is recognized, nothing is submitted.
\<close>

theorem sync_once_after_batch:
  "((\<forall>k. \<not> write_fails w k) \<longrightarrow> (\<exists>w'. CanPacketCallback msgs w = Return () w'))
   \<and> (\<forall>w'. CanPacketCallback msgs w = Return () w' \<longrightarrow>
         (if \<exists>m\<in>set msgs. recognized m
          then submitted w (CanPacketCallback msgs w) = data_events msgs @ [sync_event]
               \<and> (\<forall>e\<in>set (data_events msgs). ev_type e \<noteq> EV_SYN)
               \<and> length (filter (\<lambda>e. ev_type e = EV_SYN) (submitted w (CanPacketCallback msgs w))) = 1
          else submitted w (CanPacketCallback msgs w) = []))"
proof (intro conjI allI impI)
  assume "\<forall>k. \<not> write_fails w k"
  then show "\<exists>w'. CanPacketCallback msgs w = Return () w'"
    by (rule CanPacketCallback_total)
next
  fix w'
  assume r: "CanPacketCallback msgs w = Return () w'"
  have ns: "\<forall>e\<in>set (data_events msgs). ev_type e \<noteq> EV_SYN"
    by (simp add: data_events_not_sync)
  then have "filter (\<lambda>e. ev_type e = EV_SYN) (data_events msgs) = []"
    by (simp add: filter_empty_conv)
  with ns submitted_Return [OF r]
  show "if \<exists>m\<in>set msgs. recognized m
          then submitted w (CanPacketCallback msgs w) = data_events msgs @ [sync_event]
               \<and> (\<forall>e\<in>set (data_events msgs). ev_type e \<noteq> EV_SYN)
               \<and> length (filter (\<lambda>e. ev_type e = EV_SYN) (submitted w (CanPacketCallback msgs w))) = 1
          else submitted w (CanPacketCallback msgs w) = []"
    by (simp add: batch_events_eq data_events_unrecognized sync_event_def)
qed

theorem sync_once_after_batch_witness:
  "(\<forall>k. \<not> write_fails accepting k)
   \<and> (\<exists>w'. CanPacketCallback [ex_throttle] accepting = Return () w')
   \<and> (\<exists>m\<in>set [ex_throttle]. recognized m)
   \<and> submitted accepting (CanPacketCallback [ex_throttle] accepting)
       = data_events [ex_throttle] @ [sync_event]"
proof -
  have a: "\<forall>k. \<not> write_fails accepting k" by (simp add: accepting_def)
  have h: "\<exists>m\<in>set [ex_throttle]. recognized m" by (simp add: recognized_def ex_throttle_def)
  from sync_once_after_batch [of accepting "[ex_throttle]"] a
  obtain w' where r: "CanPacketCallback [ex_throttle] accepting = Return () w'" by blast
  from sync_once_after_batch [of accepting "[ex_throttle]"] r h
  have "submitted accepting (CanPacketCallback [ex_throttle] accepting)
          = data_events [ex_throttle] @ [sync_event]"
    by presburger
  with a r h show ?thesis by blast
qed

text \<open>
  Claim C4. If the write of an axis or button event is refused, the callback
  ends in \<^verbatim>\<open>exit(-1)\<close> and the refused write is the last call made on the
  descriptor. If the write of the sync event is refused, the callback returns;
  it has submitted the same records as on a device that accepts everything,
  and the only trace is the line on stderr.
\<close>

theorem write_failure_severity:
  "(\<forall>e. (e, False) \<in> set (new_writes w (CanPacketCallback msgs w)) \<and> ev_type e \<noteq> EV_SYN \<longrightarrow>
        (\<exists>w'. CanPacketCallback msgs w = Exit (- 1) w' \<and> last (uinput w') = (e, False)))
   \<and> (\<forall>e. (e, False) \<in> set (new_writes w (CanPacketCallback msgs w)) \<and> ev_type e = EV_SYN \<longrightarrow>
        (\<exists>w'. CanPacketCallback msgs w = Return () w'
              \<and> submitted w (CanPacketCallback msgs w) = batch_events msgs
              \<and> new_diags w (CanPacketCallback msgs w)
                  = data_diags msgs @ [''Failed to write sync event: %d (%s)'']))"
proof (intro conjI allI impI; elim conjE)
  fix e
  assume f: "(e, False) \<in> set (new_writes w (CanPacketCallback msgs w))"
    and t: "ev_type e \<noteq> EV_SYN"
  show "\<exists>w'. CanPacketCallback msgs w = Exit (- 1) w' \<and> last (uinput w') = (e, False)"
  proof (cases "CanPacketCallback msgs w")
    case (Exit c w')
    from submitted_Exit [OF Exit] obtain pre e' where
      n: "new_writes w (CanPacketCallback msgs w) = accepted pre @ [(e', False)]"
      and l: "last (uinput w') = (e', False)" and c: "c = - 1" by blast
    from f n have "(e, False) \<in> set (accepted pre @ [(e', False)])" by simp
    then have "e = e'" by (rule refused_in_accepted [THEN conjunct1])
    with Exit l c show ?thesis by simp
  next
    case (Return u w')
    show ?thesis
    proof (cases "\<exists>m\<in>set msgs. recognized m")
      case True
      from CanPacketCallback_Return [OF Return True] obtain ok where
        "uinput w' = uinput w @ accepted (data_events msgs) @ [(sync_event, ok)]" by blast
      from new_writes_Return [OF this, of u] Return f
      have "(e, False) \<in> set (accepted (data_events msgs) @ [(sync_event, ok)])" by simp
      then have "e = sync_event" by (rule refused_in_accepted [THEN conjunct1])
      with t show ?thesis by (simp add: sync_event_def)
    next
      case False
      then have "\<forall>m\<in>set msgs. \<not> recognized m" by simp
      from CanPacketCallback_unhandled [OF this, of w] f show ?thesis
        by (simp add: new_writes_def final_def)
    qed
  qed
next
  fix e
  assume f: "(e, False) \<in> set (new_writes w (CanPacketCallback msgs w))"
    and t: "ev_type e = EV_SYN"
  show "\<exists>w'. CanPacketCallback msgs w = Return () w'
              \<and> submitted w (CanPacketCallback msgs w) = batch_events msgs
              \<and> new_diags w (CanPacketCallback msgs w)
                  = data_diags msgs @ [''Failed to write sync event: %d (%s)'']"
  proof (cases "CanPacketCallback msgs w")
    case (Exit c w')
    from submitted_Exit [OF Exit] obtain pre e' where
      n: "new_writes w (CanPacketCallback msgs w) = accepted pre @ [(e', False)]"
      and p: "prefix (pre @ [e']) (data_events msgs)" by blast
    from f n have "(e, False) \<in> set (accepted pre @ [(e', False)])" by simp
    then have "e = e'" by (rule refused_in_accepted [THEN conjunct1])
    moreover from p have "e' \<in> set (data_events msgs)"
      by (auto dest: set_mono_prefix)
    ultimately show ?thesis using t data_events_not_sync by blast
  next
    case (Return u w')
    show ?thesis
    proof (cases "\<exists>m\<in>set msgs. recognized m")
      case True
      from CanPacketCallback_Return [OF Return True] obtain ok where
        u: "uinput w' = uinput w @ accepted (data_events msgs) @ [(sync_event, ok)]"
        and d: "stderr w' = stderr w @ data_diags msgs
                  @ (if ok then [] else [''Failed to write sync event: %d (%s)''])" by blast
      from new_writes_Return [OF u, of u] Return f
      have "(e, False) \<in> set (accepted (data_events msgs) @ [(sync_event, ok)])" by simp
      then have "\<not> ok" by (rule refused_in_accepted [THEN conjunct2])
      with d Return have "new_diags w (CanPacketCallback msgs w)
          = data_diags msgs @ [''Failed to write sync event: %d (%s)'']"
        by (simp add: new_diags_def final_def)
      with submitted_Return [OF Return] Return show ?thesis by simp
    next
      case False
      then have "\<forall>m\<in>set msgs. \<not> recognized m" by simp
      from CanPacketCallback_unhandled [OF this, of w] f show ?thesis
        by (simp add: new_writes_def final_def)
    qed
  qed
qed

theorem write_failure_severity_witness:
  "(\<lparr>ev_type = EV_ABS, ev_code = ABS_GAS, ev_value = 128\<rparr>, False)
      \<in> set (new_writes (refusing 0) (CanPacketCallback [ex_throttle] (refusing 0)))
   \<and> (\<exists>w'. CanPacketCallback [ex_throttle] (refusing 0) = Exit (- 1) w'
          \<and> last (uinput w') = (\<lparr>ev_type = EV_ABS, ev_code = ABS_GAS, ev_value = 128\<rparr>, False))
   \<and> (sync_event, False)
      \<in> set (new_writes (refusing 1) (CanPacketCallback [ex_throttle] (refusing 1)))
   \<and> (\<exists>w'. CanPacketCallback [ex_throttle] (refusing 1) = Return () w'
          \<and> submitted (refusing 1) (CanPacketCallback [ex_throttle] (refusing 1))
              = batch_events [ex_throttle])"
proof -
  have d: "(\<lparr>ev_type = EV_ABS, ev_code = ABS_GAS, ev_value = 128\<rparr>, False)
      \<in> set (new_writes (refusing 0) (CanPacketCallback [ex_throttle] (refusing 0)))"
    by (simp add: CanPacketCallback_def handler_defs ex_defs new_writes_def final_def Let_def)
  have s: "(sync_event, False)
      \<in> set (new_writes (refusing 1) (CanPacketCallback [ex_throttle] (refusing 1)))"
    by (simp add: CanPacketCallback_def handler_defs ex_defs new_writes_def final_def Let_def)
  have t: "ev_type \<lparr>ev_type = EV_ABS, ev_code = ABS_GAS, ev_value = 128\<rparr> \<noteq> EV_SYN"
    "ev_type sync_event = EV_SYN"
    by (simp_all add: sync_event_def)
  from write_failure_severity [of "refusing 0" "[ex_throttle]"] d t(1)
  have "\<exists>w'. CanPacketCallback [ex_throttle] (refusing 0) = Exit (- 1) w'
          \<and> last (uinput w') = (\<lparr>ev_type = EV_ABS, ev_code = ABS_GAS, ev_value = 128\<rparr>, False)"
    by blast
  moreover from write_failure_severity [of "refusing 1" "[ex_throttle]"] s t(2)
  have "\<exists>w'. CanPacketCallback [ex_throttle] (refusing 1) = Return () w'
          \<and> submitted (refusing 1) (CanPacketCallback [ex_throttle] (refusing 1))
              = batch_events [ex_throttle]"
    by blast
  ultimately show ?thesis using d s by blast
qed

text \<open>
  Claim C9. The records a callback submits depend on the frames of its batch
  only, not on the world it starts in: two invocations with the same batch
  that both return submit the same records; an invocation that follows an
  earlier batch submits what the same batch gives on a fresh device; and an
  invocation cut short by \<^verbatim>\<open>exit\<close> has submitted a prefix of that.
\<close>

theorem batch_events_stateless:
  "(CanPacketCallback msgs wa = Return () wa' \<and> CanPacketCallback msgs wb = Return () wb' \<longrightarrow>
      submitted wa (CanPacketCallback msgs wa) = submitted wb (CanPacketCallback msgs wb))
   \<and> (CanPacketCallback earlier w0 = Return () w \<and> CanPacketCallback msgs w = Return () w' \<longrightarrow>
      submitted w (CanPacketCallback msgs w) = batch_events msgs)
   \<and> prefix (submitted w (CanPacketCallback msgs w)) (batch_events msgs)"
proof (intro conjI impI; (elim conjE)?)
  assume a: "CanPacketCallback msgs wa = Return () wa'"
    and b: "CanPacketCallback msgs wb = Return () wb'"
  from submitted_Return [OF a] submitted_Return [OF b]
  show "submitted wa (CanPacketCallback msgs wa) = submitted wb (CanPacketCallback msgs wb)"
    by simp
next
  assume "CanPacketCallback msgs w = Return () w'"
  then show "submitted w (CanPacketCallback msgs w) = batch_events msgs"
    by (rule submitted_Return)
next
  show "prefix (submitted w (CanPacketCallback msgs w)) (batch_events msgs)"
  proof (cases "CanPacketCallback msgs w")
    case (Exit c w')
    from submitted_Exit [OF Exit] obtain pre e where
      n: "new_writes w (CanPacketCallback msgs w) = accepted pre @ [(e, False)]"
      and p: "prefix (pre @ [e]) (data_events msgs)" by blast
    from n have "submitted w (CanPacketCallback msgs w) = pre @ [e]"
      by (simp add: submitted_def accepted_def comp_def)
    with p show ?thesis
      by (auto simp: batch_events_eq intro: prefix_order.trans)
  next
    case (Return u w')
    from submitted_Return [OF Return] show ?thesis by simp
  qed
qed

theorem batch_events_stateless_witness:
  "(\<exists>wa' wb'. CanPacketCallback [ex_paddle, ex_steering] accepting = Return () wa'
       \<and> CanPacketCallback [ex_paddle, ex_steering] used_device = Return () wb')
   \<and> submitted accepting (CanPacketCallback [ex_paddle, ex_steering] accepting)
       = submitted used_device (CanPacketCallback [ex_paddle, ex_steering] used_device)
   \<and> (\<exists>w w'. CanPacketCallback [ex_throttle] accepting = Return () w
       \<and> CanPacketCallback [ex_paddle, ex_steering] w = Return () w'
       \<and> submitted w (CanPacketCallback [ex_paddle, ex_steering] w)
           = batch_events [ex_paddle, ex_steering])"
proof -
  have a: "\<forall>k. \<not> write_fails accepting k" by (simp add: accepting_def)
  obtain wa' where ra: "CanPacketCallback [ex_paddle, ex_steering] accepting = Return () wa'"
    using CanPacketCallback_total [OF a] by blast
  have "CanPacketCallback [ex_paddle, ex_steering] used_device
     = Return () (extend used_device
          (accepted (frame_events ex_paddle @ frame_events ex_steering) @ [(sync_event, True)]) [])"
    by (simp add: CanPacketCallback_def handler_defs ex_defs obs_defs Let_def extend_def
        frame_events_def accepted_def)
  then obtain wb' where rb: "CanPacketCallback [ex_paddle, ex_steering] used_device = Return () wb'"
    by blast
  obtain w where r0: "CanPacketCallback [ex_throttle] accepting = Return () w"
    using CanPacketCallback_total [OF a] by blast
  from r0 have "\<forall>k. \<not> write_fails w k"
    by (auto simp: CanPacketCallback_def handler_defs ex_defs Let_def)
  then obtain w' where r1: "CanPacketCallback [ex_paddle, ex_steering] w = Return () w'"
    using CanPacketCallback_total by blast
  from batch_events_stateless
    [where msgs = "[ex_paddle, ex_steering]" and wa = accepting and wa' = wa'
       and wb = used_device and wb' = wb'] ra rb
  have "submitted accepting (CanPacketCallback [ex_paddle, ex_steering] accepting)
       = submitted used_device (CanPacketCallback [ex_paddle, ex_steering] used_device)"
    by blast
  moreover from batch_events_stateless
    [where msgs = "[ex_paddle, ex_steering]" and earlier = "[ex_throttle]" and ?w0.0 = accepting
       and w = w and w' = w'] r0 r1
  have "submitted w (CanPacketCallback [ex_paddle, ex_steering] w)
           = batch_events [ex_paddle, ex_steering]"
    by blast
  ultimately show ?thesis using ra rb r0 r1 by blast
qed

end
